theory Spec2Isabelle
  imports Complex_Main "HOL-Library.Word" "HOL-Library.Signed_Division"
begin

section \<open>Values of the program\<close>

subsection \<open>C++ \<open>float\<close>\<close>

text \<open>
  The sensor values \<open>valor_ph\<close> and \<open>umidade_solo\<close> are C++ \<open>float\<close>s. The program
  only compares them with constants (\<open><\<close> and \<open>>\<close>) and hands them to the Arduino
  printing routines, so a float is modelled by what it denotes: a finite number, one of
  the two infinities, or NaN. Every finite binary32 value is a (dyadic) real, and on
  finite values the comparisons of IEEE 754 are those of the reals; a statement proved
  for every \<open>Finite r\<close> therefore holds for every finite float.
\<close>

datatype cfloat = Finite real | PInf | NInf | NaN

text \<open>IEEE 754 \<open>a < b\<close>: false as soon as one side is NaN.\<close>

fun flt :: "cfloat \<Rightarrow> cfloat \<Rightarrow> bool" where
  "flt (Finite a) (Finite b) = (a < b)"
| "flt (Finite a) PInf = True"
| "flt NInf (Finite b) = True"
| "flt NInf PInf = True"
| "flt _ _ = False"

text \<open>IEEE 754 \<open>a > b\<close>.\<close>

definition fgt :: "cfloat \<Rightarrow> cfloat \<Rightarrow> bool" where
  "fgt a b = flt b a"

text \<open>
  IEEE 754 \<open>a <= b\<close>, false as soon as one side is NaN. The program never evaluates it;
  it is used to state "pH within [6.0, 8.0]" and "moisture between 30 and 70".
\<close>

fun fle :: "cfloat \<Rightarrow> cfloat \<Rightarrow> bool" where
  "fle (Finite a) (Finite b) = (a \<le> b)"
| "fle (Finite a) PInf = True"
| "fle NInf (Finite b) = True"
| "fle NInf NInf = True"
| "fle NInf PInf = True"
| "fle PInf PInf = True"
| "fle _ _ = False"

subsection \<open>Arduino \<open>String\<close> values and \<open>Serial\<close> calls\<close>

text \<open>
  \<open>String(x, d)\<close> and \<open>Serial.print(x, d)\<close> render a float with \<open>d\<close> decimal places;
  the rendering is code of the Arduino core, not of this program. A \<open>String\<close> is
  therefore kept as the sequence of its pieces, in order: a literal text (bytes, UTF-8)
  or a float together with the number of decimal places asked for. \<open>+\<close> on \<open>String\<close>s
  is \<open>@\<close>, the empty \<open>String\<close> is \<open>[]\<close>.
\<close>

datatype fragment = Lit string | Dec cfloat nat

type_synonym arduino_string = "fragment list"

text \<open>
  What the program writes to the serial port is kept as the list of the \<open>Serial\<close> calls
  it makes, each with its argument: \<open>Serial.print\<close> of an \<open>unsigned long\<close> (32 bits on
  the ESP32 this program is written for), of a text, of a float with its number of
  decimal places, and \<open>Serial.println\<close> of a text (the text followed by a line break).
\<close>

datatype serial_call =
    Print_ulong "32 word"
  | Print_str string
  | Print_float cfloat nat
  | Println_str string

text \<open>The UTF-8 bytes of the three non-ASCII letters of the messages.\<close>

definition a_agudo :: string where
  "a_agudo = [CHR 0xC3, CHR 0xA1]"

definition c_cedilha :: string where
  "c_cedilha = [CHR 0xC3, CHR 0xA7]"

definition a_til :: string where
  "a_til = [CHR 0xC3, CHR 0xA3]"

section \<open>Global variables and constants\<close>

definition PIN_RELE :: nat where
  "PIN_RELE = 2"

definition PIN_LED :: nat where
  "PIN_LED = 2"

text \<open>
  The globals of \<open>main.cpp\<close>, and \<open>pinos\<close>, the level last written to each output pin
  by \<open>digitalWrite\<close> (\<open>True\<close> is \<open>HIGH\<close>).
\<close>

record estado =
  fosforo_presente :: bool
  potassio_presente :: bool
  valor_ph :: cfloat
  umidade_solo :: cfloat
  bomba_ativa :: bool
  ultima_leitura :: "32 word"
  contador_medicoes :: "32 word"
  cenario_atual :: int
  pinos :: "nat \<Rightarrow> bool"

definition LIMITE_UMIDADE_BAIXA :: cfloat where
  "LIMITE_UMIDADE_BAIXA = Finite 30"

definition LIMITE_UMIDADE_ALTA :: cfloat where
  "LIMITE_UMIDADE_ALTA = Finite 70"

definition LIMITE_PH_BAIXO :: cfloat where
  "LIMITE_PH_BAIXO = Finite 6"

definition LIMITE_PH_ALTO :: cfloat where
  "LIMITE_PH_ALTO = Finite 8"

definition INTERVALO_LEITURA :: "32 word" where
  "INTERVALO_LEITURA = 3000"

section \<open>The functions of the program\<close>

text \<open>
  \<open>analisarDadosEControlarBomba\<close>: the two locals \<open>deve_ativar_bomba\<close> and
  \<open>motivo_decisao\<close> are reassigned by four statements in sequence; then the pump flag
  and the relay and LED pins are written. The result is the new state and the final
  \<open>motivo_decisao\<close>, which the function prints after \<open>Motivo: \<close>. The rest of its
  diagnostic log is not modelled.
\<close>

definition analisarDadosEControlarBomba :: "estado \<Rightarrow> estado \<times> arduino_string" where
  "analisarDadosEControlarBomba s =
    (let deve_ativar_bomba = False;
         motivo_decisao = ([] :: arduino_string);
         (deve_ativar_bomba, motivo_decisao) =
           (if flt (umidade_solo s) LIMITE_UMIDADE_BAIXA then
              (True, [Lit ''Umidade baixa (''] @ [Dec (umidade_solo s) 1] @ [Lit ''%)''])
            else if fgt (umidade_solo s) LIMITE_UMIDADE_ALTA then
              (False, [Lit ''Umidade alta (''] @ [Dec (umidade_solo s) 1] @ [Lit ''%)''])
            else
              (deve_ativar_bomba,
               [Lit ''Umidade normal (''] @ [Dec (umidade_solo s) 1] @ [Lit ''%)'']));
         (deve_ativar_bomba, motivo_decisao) =
           (if flt (valor_ph s) LIMITE_PH_BAIXO then
              (False,
               [Lit (''pH muito '' @ a_agudo @ ''cido ('')] @ [Dec (valor_ph s) 1]
               @ [Lit ('') - irriga'' @ c_cedilha @ a_til @ ''o bloqueada'')])
            else if fgt (valor_ph s) LIMITE_PH_ALTO then
              (False,
               [Lit ''pH muito alcalino (''] @ [Dec (valor_ph s) 1]
               @ [Lit ('') - irriga'' @ c_cedilha @ a_til @ ''o bloqueada'')])
            else (deve_ativar_bomba, motivo_decisao));
         (deve_ativar_bomba, motivo_decisao) =
           (if \<not> fosforo_presente s \<and> \<not> potassio_presente s then
              (True,
               [Lit (''SEM NUTRIENTES - Irriga'' @ c_cedilha @ a_til @ ''o for''
                     @ c_cedilha @ ''ada para preparar solo'')])
            else (deve_ativar_bomba, motivo_decisao));
         (deve_ativar_bomba, motivo_decisao) =
           (if (fosforo_presente s \<and> \<not> potassio_presente s)
               \<or> (\<not> fosforo_presente s \<and> potassio_presente s) then
              (True,
               [Lit (''Nutriente parcial - Irriga'' @ c_cedilha @ a_til
                     @ ''o para balanceamento'')])
            else (deve_ativar_bomba, motivo_decisao))
     in (s\<lparr>bomba_ativa := deve_ativar_bomba,
            pinos := ((pinos s)(PIN_RELE := deve_ativar_bomba))
                       (PIN_LED := deve_ativar_bomba)\<rparr>,
         motivo_decisao))"

text \<open>
  \<open>simularCenario\<close>: the \<open>switch\<close> on \<open>cenario_atual\<close> assigns one of six fixed readings;
  outside \<open>0..5\<close> no case matches and nothing is assigned. The literals \<open>7.2\<close> and
  \<open>6.8\<close> are not binary32 values: the float stored is the nearest one,
  \<open>15099494 / 2^21\<close> and \<open>14260634 / 2^21\<close>. The scenario title it prints is not
  modelled.
\<close>

definition simularCenario :: "estado \<Rightarrow> estado" where
  "simularCenario s =
    (if cenario_atual s = 0 then
       s\<lparr>fosforo_presente := False, potassio_presente := False,
         umidade_solo := Finite 45, valor_ph := Finite (15099494 / 2097152)\<rparr>
     else if cenario_atual s = 1 then
       s\<lparr>fosforo_presente := True, potassio_presente := False,
         umidade_solo := Finite 25, valor_ph := Finite 7\<rparr>
     else if cenario_atual s = 2 then
       s\<lparr>fosforo_presente := False, potassio_presente := True,
         umidade_solo := Finite 75, valor_ph := Finite (14260634 / 2097152)\<rparr>
     else if cenario_atual s = 3 then
       s\<lparr>fosforo_presente := True, potassio_presente := True,
         umidade_solo := Finite 40, valor_ph := Finite (11 / 2)\<rparr>
     else if cenario_atual s = 4 then
       s\<lparr>fosforo_presente := True, potassio_presente := True,
         umidade_solo := Finite 50, valor_ph := Finite (17 / 2)\<rparr>
     else if cenario_atual s = 5 then
       s\<lparr>fosforo_presente := True, potassio_presente := True,
         umidade_solo := Finite 55, valor_ph := Finite 7\<rparr>
     else s)"

text \<open>
  \<open>lerSensores\<close> reads the two analog inputs and the DHT22 into locals and prints them;
  it assigns no global ("usar valores simulados"), so on the state it is the identity.
\<close>

definition lerSensores :: "estado \<Rightarrow> estado" where
  "lerSensores s = s"

text \<open>\<open>exibirDadosCSV\<close>: the eleven \<open>Serial\<close> calls it makes, in order.\<close>

definition exibirDadosCSV :: "estado \<Rightarrow> serial_call list" where
  "exibirDadosCSV s =
    [Print_ulong (contador_medicoes s),
     Print_str '','',
     Print_str (if fosforo_presente s then ''1'' else ''0''),
     Print_str '','',
     Print_str (if potassio_presente s then ''1'' else ''0''),
     Print_str '','',
     Print_float (valor_ph s) 2,
     Print_str '','',
     Print_float (umidade_solo s) 1,
     Print_str '','',
     Println_str (if bomba_ativa s then ''1'' else ''0'')]"

text \<open>
  \<open>loop\<close>, given the value \<open>millis()\<close> returns: when the interval has elapsed
  (\<open>unsigned long\<close> subtraction, which wraps), one cycle runs. The result is the new
  state and the \<open>Serial\<close> calls of \<open>exibirDadosCSV\<close> in this call of \<open>loop\<close> (none when
  no cycle runs). \<open>cenario_atual\<close> is an \<open>int\<close>; \<open>%\<close> truncates towards zero
  (\<open>smod\<close>).
\<close>

definition loop :: "32 word \<Rightarrow> estado \<Rightarrow> estado \<times> serial_call list" where
  "loop tempo_atual s =
    (if tempo_atual - ultima_leitura s \<ge> INTERVALO_LEITURA then
       (let s = s\<lparr>ultima_leitura := tempo_atual\<rparr>;
            s = s\<lparr>contador_medicoes := contador_medicoes s + 1\<rparr>;
            s = simularCenario s;
            s = lerSensores s;
            s = fst (analisarDadosEControlarBomba s);
            csv = exibirDadosCSV s;
            s = s\<lparr>cenario_atual := (cenario_atual s + 1) smod 6\<rparr>
        in (s, csv))
     else (s, []))"

text \<open>
  The state when \<open>setup()\<close> returns: the initialisers of the globals, the relay pin
  written \<open>LOW\<close>, and \<open>ultima_leitura\<close> set to the value of \<open>millis()\<close> at that moment.
\<close>

definition estado_inicial :: "32 word \<Rightarrow> estado" where
  "estado_inicial agora =
    \<lparr>fosforo_presente = False, potassio_presente = False,
     valor_ph = Finite 0, umidade_solo = Finite 0, bomba_ativa = False,
     ultima_leitura = agora, contador_medicoes = 0, cenario_atual = 0,
     pinos = (\<lambda>pin. False)\<rparr>"

section \<open>Reason codes\<close>

text \<open>
  The closed set of reason codes of the specification, and the reading of a
  \<open>motivo_decisao\<close> as one of them, by the text it starts with. The empty \<open>String\<close>
  that \<open>motivo_decisao\<close> is initialised with is no reason.
\<close>

datatype reason =
    MOISTURE_LOW
  | MOISTURE_HIGH
  | MOISTURE_NORMAL
  | PH_TOO_ACIDIC
  | PH_TOO_ALKALINE
  | NO_NUTRIENTS_FORCE_IRRIGATION
  | PARTIAL_NUTRIENT_BALANCING

fun reason_of :: "arduino_string \<Rightarrow> reason option" where
  "reason_of (Lit t # rest) =
    (if t = ''Umidade baixa ('' then Some MOISTURE_LOW
     else if t = ''Umidade alta ('' then Some MOISTURE_HIGH
     else if t = ''Umidade normal ('' then Some MOISTURE_NORMAL
     else if t = ''pH muito '' @ a_agudo @ ''cido ('' then Some PH_TOO_ACIDIC
     else if t = ''pH muito alcalino ('' then Some PH_TOO_ALKALINE
     else if t = ''SEM NUTRIENTES - Irriga'' @ c_cedilha @ a_til @ ''o for''
                 @ c_cedilha @ ''ada para preparar solo''
       then Some NO_NUTRIENTS_FORCE_IRRIGATION
     else if t = ''Nutriente parcial - Irriga'' @ c_cedilha @ a_til
                 @ ''o para balanceamento''
       then Some PARTIAL_NUTRIENT_BALANCING
     else None)"
| "reason_of _ = None"

text \<open>The decision of one evaluation: the pump flag it leaves and its reason code.\<close>

definition pumpOn :: "estado \<Rightarrow> bool" where
  "pumpOn s = bomba_ativa (fst (analisarDadosEControlarBomba s))"

definition reasonCode :: "estado \<Rightarrow> reason option" where
  "reasonCode s = reason_of (snd (analisarDadosEControlarBomba s))"

text \<open>The reading of a state: the four sensor globals.\<close>

definition leitura :: "estado \<Rightarrow> bool \<times> bool \<times> cfloat \<times> cfloat" where
  "leitura s = (fosforo_presente s, potassio_presente s, valor_ph s, umidade_solo s)"

text \<open>A state with a given reading, for the concrete instances below.\<close>

definition com_leitura :: "bool \<Rightarrow> bool \<Rightarrow> cfloat \<Rightarrow> cfloat \<Rightarrow> estado" where
  "com_leitura f k ph u =
    (estado_inicial 0)\<lparr>fosforo_presente := f, potassio_presente := k,
                        valor_ph := ph, umidade_solo := u\<rparr>"

section \<open>The decision policy\<close>

lemmas limites =
  LIMITE_UMIDADE_BAIXA_def LIMITE_UMIDADE_ALTA_def LIMITE_PH_BAIXO_def LIMITE_PH_ALTO_def

lemmas letras = a_agudo_def c_cedilha_def a_til_def

lemmas decisao_defs =
  pumpOn_def reasonCode_def analisarDadosEControlarBomba_def limites letras

lemma flt_not_fgt: "flt a b \<Longrightarrow> \<not> fgt a b"
  by (cases a; cases b) (simp_all add: fgt_def)

lemma fle_not_flt: "fle a b \<Longrightarrow> \<not> flt b a"
  by (cases a; cases b) simp_all

lemma fle_not_fgt: "fle a b \<Longrightarrow> \<not> fgt a b"
  by (simp add: fgt_def fle_not_flt)

lemma fle_iff_not_flt: "a \<noteq> NaN \<Longrightarrow> b \<noteq> NaN \<Longrightarrow> fle a b = (\<not> flt b a)"
  by (cases a; cases b) auto

lemma com_leitura_simps:
  "fosforo_presente (com_leitura f k ph u) = f"
  "potassio_presente (com_leitura f k ph u) = k"
  "valor_ph (com_leitura f k ph u) = ph"
  "umidade_solo (com_leitura f k ph u) = u"
  by (simp_all add: com_leitura_def)

text \<open>
  C1. Both nutrients present, moisture below 30.0 and pH below 6.0: the pump stays off
  and the reason is PH_TOO_ACIDIC. The pH rule overwrites the moisture rule and no
  nutrient rule fires afterwards.
\<close>

theorem ph_acidic_blocks_low_moisture:
  assumes "fosforo_presente s" and "potassio_presente s"
    and "flt (umidade_solo s) (Finite 30)" and "flt (valor_ph s) (Finite 6)"
  shows "pumpOn s = False \<and> reasonCode s = Some PH_TOO_ACIDIC"
  using assms by (simp add: decisao_defs)

theorem ph_acidic_blocks_low_moisture_witness:
  "pumpOn (com_leitura True True (Finite 5) (Finite 20)) = False
   \<and> reasonCode (com_leitura True True (Finite 5) (Finite 20)) = Some PH_TOO_ACIDIC"
  using ph_acidic_blocks_low_moisture [of "com_leitura True True (Finite 5) (Finite 20)"]
  by (simp add: com_leitura_simps)

text \<open>
  C2. Both nutrients absent: the pump is switched on with reason
  NO_NUTRIENTS_FORCE_IRRIGATION, whatever the moisture and the pH are (finite in or out
  of range, infinite or NaN).
\<close>

theorem no_nutrients_force_irrigation:
  assumes "\<not> fosforo_presente s" and "\<not> potassio_presente s"
  shows "pumpOn s = True \<and> reasonCode s = Some NO_NUTRIENTS_FORCE_IRRIGATION"
  using assms by (simp add: decisao_defs split: prod.splits)

theorem no_nutrients_force_irrigation_witness:
  "pumpOn (com_leitura False False (Finite 9) (Finite 80)) = True
   \<and> reasonCode (com_leitura False False (Finite 9) (Finite 80))
       = Some NO_NUTRIENTS_FORCE_IRRIGATION"
  using no_nutrients_force_irrigation [of "com_leitura False False (Finite 9) (Finite 80)"]
  by (simp add: com_leitura_simps)

text \<open>
  C3. Exactly one of phosphorus and potassium present: the pump is switched on with
  reason PARTIAL_NUTRIENT_BALANCING, whatever the moisture and the pH are; the pH block
  is overwritten.
\<close>

theorem partial_nutrient_forces_irrigation:
  assumes "fosforo_presente s \<noteq> potassio_presente s"
  shows "pumpOn s = True \<and> reasonCode s = Some PARTIAL_NUTRIENT_BALANCING"
  using assms by (auto simp add: decisao_defs split: prod.splits)

theorem partial_nutrient_forces_irrigation_witness:
  "pumpOn (com_leitura True False (Finite 5) (Finite 80)) = True
   \<and> reasonCode (com_leitura True False (Finite 5) (Finite 80))
       = Some PARTIAL_NUTRIENT_BALANCING"
  using partial_nutrient_forces_irrigation [of "com_leitura True False (Finite 5) (Finite 80)"]
  by (simp add: com_leitura_simps)

text \<open>
  C4. Both nutrients present, moisture strictly below 30.0 and pH within [6.0, 8.0]:
  the pump is switched on with reason MOISTURE_LOW.
\<close>

theorem moisture_low_irrigates:
  assumes "fosforo_presente s" and "potassio_presente s"
    and "flt (umidade_solo s) (Finite 30)"
    and "fle (Finite 6) (valor_ph s)" and "fle (valor_ph s) (Finite 8)"
  shows "pumpOn s = True \<and> reasonCode s = Some MOISTURE_LOW"
  using assms fle_not_flt [of "Finite 6" "valor_ph s"] fle_not_fgt [of "valor_ph s" "Finite 8"]
  by (simp add: decisao_defs)

theorem moisture_low_irrigates_witness:
  "pumpOn (com_leitura True True (Finite 7) (Finite 25)) = True
   \<and> reasonCode (com_leitura True True (Finite 7) (Finite 25)) = Some MOISTURE_LOW"
  using moisture_low_irrigates [of "com_leitura True True (Finite 7) (Finite 25)"]
  by (simp add: com_leitura_simps)

text \<open>
  C5. Both nutrients present, moisture in the normal band from 30 to 70 (both bounds
  included) and pH within [6.0, 8.0]: the pump stays off with reason MOISTURE_NORMAL.
\<close>

theorem moisture_normal_keeps_pump_off:
  assumes "fosforo_presente s" and "potassio_presente s"
    and "fle (Finite 30) (umidade_solo s)" and "fle (umidade_solo s) (Finite 70)"
    and "fle (Finite 6) (valor_ph s)" and "fle (valor_ph s) (Finite 8)"
  shows "pumpOn s = False \<and> reasonCode s = Some MOISTURE_NORMAL"
  using assms
    fle_not_flt [of "Finite 30" "umidade_solo s"] fle_not_fgt [of "umidade_solo s" "Finite 70"]
    fle_not_flt [of "Finite 6" "valor_ph s"] fle_not_fgt [of "valor_ph s" "Finite 8"]
  by (simp add: decisao_defs)

theorem moisture_normal_keeps_pump_off_witness:
  "pumpOn (com_leitura True True (Finite 7) (Finite 55)) = False
   \<and> reasonCode (com_leitura True True (Finite 7) (Finite 55)) = Some MOISTURE_NORMAL"
  using moisture_normal_keeps_pump_off [of "com_leitura True True (Finite 7) (Finite 55)"]
  by (simp add: com_leitura_simps)

text \<open>
  C9. The comparisons are strict. With both nutrients present: a moisture of exactly
  30.0 or exactly 70.0 is in the normal branch (pump off, MOISTURE_NORMAL, for every pH
  within [6.0, 8.0]); a pH of exactly 6.0 or exactly 8.0 does not block (the outcome of
  the moisture rule stands: the pump is on exactly when the moisture is below 30.0, and
  the reason is a moisture reason); and moisture 30.0 with pH 6.0 gives pump off with
  MOISTURE_NORMAL.
\<close>

theorem thresholds_are_strict:
  "(fosforo_presente s \<and> potassio_presente s
      \<and> umidade_solo s \<in> {Finite 30, Finite 70}
      \<and> fle (Finite 6) (valor_ph s) \<and> fle (valor_ph s) (Finite 8)
     \<longrightarrow> pumpOn s = False \<and> reasonCode s = Some MOISTURE_NORMAL)
   \<and> (fosforo_presente s \<and> potassio_presente s \<and> valor_ph s \<in> {Finite 6, Finite 8}
     \<longrightarrow> pumpOn s = flt (umidade_solo s) (Finite 30)
         \<and> reasonCode s \<in> {Some MOISTURE_LOW, Some MOISTURE_HIGH, Some MOISTURE_NORMAL})
   \<and> (fosforo_presente s \<and> potassio_presente s
      \<and> umidade_solo s = Finite 30 \<and> valor_ph s = Finite 6
     \<longrightarrow> pumpOn s = False \<and> reasonCode s = Some MOISTURE_NORMAL)"
  using fle_not_flt [of "Finite 6" "valor_ph s"] fle_not_fgt [of "valor_ph s" "Finite 8"]
  by (auto simp add: decisao_defs fgt_def)

theorem thresholds_are_strict_witness:
  "pumpOn (com_leitura True True (Finite 6) (Finite 30)) = False
   \<and> reasonCode (com_leitura True True (Finite 6) (Finite 30)) = Some MOISTURE_NORMAL"
  using thresholds_are_strict [of "com_leitura True True (Finite 6) (Finite 30)"]
  by (simp add: com_leitura_simps)

section \<open>Purity and totality\<close>

lemma analisar_fields:
  "fosforo_presente (fst (analisarDadosEControlarBomba s)) = fosforo_presente s"
  "potassio_presente (fst (analisarDadosEControlarBomba s)) = potassio_presente s"
  "valor_ph (fst (analisarDadosEControlarBomba s)) = valor_ph s"
  "umidade_solo (fst (analisarDadosEControlarBomba s)) = umidade_solo s"
  "contador_medicoes (fst (analisarDadosEControlarBomba s)) = contador_medicoes s"
  "cenario_atual (fst (analisarDadosEControlarBomba s)) = cenario_atual s"
  "ultima_leitura (fst (analisarDadosEControlarBomba s)) = ultima_leitura s"
  by (simp_all add: analisarDadosEControlarBomba_def split: prod.splits)

lemma analisar_leitura: "leitura (fst (analisarDadosEControlarBomba s)) = leitura s"
  by (simp add: leitura_def analisar_fields)

lemma analisar_rele:
  "pinos (fst (analisarDadosEControlarBomba s)) PIN_RELE = pumpOn s"
  by (simp add: pumpOn_def analisarDadosEControlarBomba_def PIN_RELE_def PIN_LED_def
      split: prod.splits)

text \<open>
  C6. The decision depends on the reading alone. Two states with the same reading,
  whatever their pump flag, counters and pin levels are (so whatever was evaluated
  before), get the same pump decision and the same \<open>motivo_decisao\<close>; and an evaluation
  leaves the reading as it was, so evaluating again on its result repeats the decision.
\<close>

theorem decision_depends_on_reading_only:
  "(leitura s = leitura s'
     \<longrightarrow> pumpOn s = pumpOn s'
         \<and> snd (analisarDadosEControlarBomba s) = snd (analisarDadosEControlarBomba s'))
   \<and> pumpOn (fst (analisarDadosEControlarBomba s)) = pumpOn s
   \<and> snd (analisarDadosEControlarBomba (fst (analisarDadosEControlarBomba s)))
       = snd (analisarDadosEControlarBomba s)"
proof -
  have same: "pumpOn a = pumpOn b
      \<and> snd (analisarDadosEControlarBomba a) = snd (analisarDadosEControlarBomba b)"
    if "leitura a = leitura b" for a b
    using that by (simp add: leitura_def pumpOn_def analisarDadosEControlarBomba_def)
  from same [OF analisar_leitura [of s]] same [of s s'] show ?thesis
    by blast
qed

theorem decision_depends_on_reading_only_witness:
  "pumpOn ((com_leitura True True (Finite 7) (Finite 25))
             \<lparr>bomba_ativa := True, contador_medicoes := 41, cenario_atual := 3\<rparr>)
     = pumpOn (com_leitura True True (Finite 7) (Finite 25))
   \<and> snd (analisarDadosEControlarBomba
            ((com_leitura True True (Finite 7) (Finite 25))
               \<lparr>bomba_ativa := True, contador_medicoes := 41, cenario_atual := 3\<rparr>))
     = snd (analisarDadosEControlarBomba (com_leitura True True (Finite 7) (Finite 25)))"
  using decision_depends_on_reading_only
    [of "(com_leitura True True (Finite 7) (Finite 25))
           \<lparr>bomba_ativa := True, contador_medicoes := 41, cenario_atual := 3\<rparr>"
        "com_leitura True True (Finite 7) (Finite 25)"]
  by (simp add: leitura_def com_leitura_simps)

text \<open>
  C7. The evaluation has no failure branch: for every state, whatever its moisture and
  its pH are (finite in or out of the expected range, infinite or NaN), it ends with a
  pump decision and a reason of the closed set of reason codes.
\<close>

theorem evaluation_always_decides:
  "\<exists>b r. pumpOn s = b \<and> reasonCode s = Some r"
  by (simp add: decisao_defs)

theorem evaluation_always_decides_witness:
  "\<exists>b r. pumpOn (com_leitura True True NaN (Finite 150)) = b
         \<and> reasonCode (com_leitura True True NaN (Finite 150)) = Some r"
  using evaluation_always_decides [of "com_leitura True True NaN (Finite 150)"]
  by simp

text \<open>
  C10, as stated, fails: with both nutrients present, moisture 20.0 and a NaN pH, neither
  \<open>pH < 6.0\<close> nor \<open>pH > 8.0\<close> holds, so the pump is on, although \<open>6.0 <= pH\<close> is false.
\<close>

theorem pump_characterisation_fails_at_nan_ph:
  "pumpOn (com_leitura True True NaN (Finite 20))
   \<noteq> (\<not> (fosforo_presente (com_leitura True True NaN (Finite 20))
            \<and> potassio_presente (com_leitura True True NaN (Finite 20)))
       \<or> (fosforo_presente (com_leitura True True NaN (Finite 20))
            \<and> potassio_presente (com_leitura True True NaN (Finite 20))
            \<and> flt (umidade_solo (com_leitura True True NaN (Finite 20))) (Finite 30)
            \<and> fle (Finite 6) (valor_ph (com_leitura True True NaN (Finite 20)))
            \<and> fle (valor_ph (com_leitura True True NaN (Finite 20))) (Finite 8)))"
  by (simp add: decisao_defs com_leitura_simps fgt_def)

text \<open>
  C10, amended. For every reading the pump is on if and only if not both nutrients are
  present, or the moisture is below 30.0 and neither \<open>pH < 6.0\<close> nor \<open>pH > 8.0\<close> holds.
  For every reading whose pH is not NaN this is the condition of the claim: not both
  nutrients present, or both present, moisture below 30.0, \<open>6.0 <= pH\<close> and
  \<open>pH <= 8.0\<close>. The pump flag left by the previous cycle has no influence: every
  evaluation starts from pump off.
\<close>

theorem pump_characterisation:
  "pumpOn s = (\<not> (fosforo_presente s \<and> potassio_presente s)
               \<or> (flt (umidade_solo s) (Finite 30)
                    \<and> \<not> flt (valor_ph s) (Finite 6) \<and> \<not> fgt (valor_ph s) (Finite 8)))
   \<and> (valor_ph s \<noteq> NaN
       \<longrightarrow> pumpOn s = (\<not> (fosforo_presente s \<and> potassio_presente s)
                        \<or> (fosforo_presente s \<and> potassio_presente s
                             \<and> flt (umidade_solo s) (Finite 30)
                             \<and> fle (Finite 6) (valor_ph s) \<and> fle (valor_ph s) (Finite 8))))
   \<and> pumpOn (s\<lparr>bomba_ativa := b\<rparr>) = pumpOn s"
proof -
  have general: "pumpOn s = (\<not> (fosforo_presente s \<and> potassio_presente s)
               \<or> (flt (umidade_solo s) (Finite 30)
                    \<and> \<not> flt (valor_ph s) (Finite 6) \<and> \<not> fgt (valor_ph s) (Finite 8)))"
    by (auto simp add: decisao_defs flt_not_fgt split: prod.splits)
  have number: "fle (Finite 6) (valor_ph s) = (\<not> flt (valor_ph s) (Finite 6))"
      "fle (valor_ph s) (Finite 8) = (\<not> fgt (valor_ph s) (Finite 8))"
    if "valor_ph s \<noteq> NaN"
    using that by (simp_all add: fle_iff_not_flt fgt_def)
  have fresh: "pumpOn (s\<lparr>bomba_ativa := b\<rparr>) = pumpOn s"
    by (simp add: pumpOn_def analisarDadosEControlarBomba_def)
  from general number fresh show ?thesis
    by blast
qed

theorem pump_characterisation_witness:
  "Finite 7 \<noteq> NaN
   \<and> pumpOn (com_leitura True True (Finite 7) (Finite 20)) = True
   \<and> pumpOn ((com_leitura True True (Finite 7) (Finite 20))\<lparr>bomba_ativa := True\<rparr>) = True"
  using pump_characterisation [of "com_leitura True True (Finite 7) (Finite 20)" True]
  by (simp add: com_leitura_simps fgt_def)

section \<open>The record line\<close>

lemma simularCenario_fields:
  "contador_medicoes (simularCenario s) = contador_medicoes s"
  "cenario_atual (simularCenario s) = cenario_atual s"
  "ultima_leitura (simularCenario s) = ultima_leitura s"
  "bomba_ativa (simularCenario s) = bomba_ativa s"
  by (simp_all add: simularCenario_def)

text \<open>
  C8. In a call of \<open>loop\<close> that runs a cycle, the record line is written by eleven
  \<open>Serial\<close> calls: six fields separated by five \<open>","\<close>, in the order cycle counter (after
  its increment), phosphorus as \<open>"1"\<close> or \<open>"0"\<close>, potassium as \<open>"1"\<close> or \<open>"0"\<close>, pH
  with 2 decimal places, moisture with 1 decimal place, and pump as \<open>"1"\<close> or \<open>"0"\<close>
  followed by the line break; the reading \<open>r\<close> is the one \<open>simularCenario\<close> sets in this
  cycle and the pump field is the decision of this cycle's evaluation of \<open>r\<close>.
\<close>

theorem csv_record_line:
  assumes "INTERVALO_LEITURA \<le> tempo_atual - ultima_leitura s"
  shows "(let r = simularCenario (s\<lparr>ultima_leitura := tempo_atual,
                                     contador_medicoes := contador_medicoes s + 1\<rparr>)
          in snd (loop tempo_atual s) =
              [Print_ulong (contador_medicoes s + 1),
               Print_str '','',
               Print_str (if fosforo_presente r then ''1'' else ''0''),
               Print_str '','',
               Print_str (if potassio_presente r then ''1'' else ''0''),
               Print_str '','',
               Print_float (valor_ph r) 2,
               Print_str '','',
               Print_float (umidade_solo r) 1,
               Print_str '','',
               Println_str (if pumpOn r then ''1'' else ''0'')])"
  using assms
  by (simp add: loop_def Let_def exibirDadosCSV_def lerSensores_def pumpOn_def
      analisar_fields simularCenario_fields)

text \<open>
  The first cycle after \<open>setup()\<close>, three seconds later: the line \<open>1,0,0,7.20,45.0,1\<close>
  of the first demonstration scenario.
\<close>

theorem csv_record_line_witness:
  "INTERVALO_LEITURA \<le> 3000 - ultima_leitura (estado_inicial 0)
   \<and> snd (loop 3000 (estado_inicial 0)) =
       [Print_ulong 1,
        Print_str '','',
        Print_str ''0'',
        Print_str '','',
        Print_str ''0'',
        Print_str '','',
        Print_float (Finite (15099494 / 2097152)) 2,
        Print_str '','',
        Print_float (Finite 45) 1,
        Print_str '','',
        Println_str ''1'']"
  using csv_record_line [of 3000 "estado_inicial 0"]
  by (simp add: INTERVALO_LEITURA_def estado_inicial_def simularCenario_def Let_def
      decisao_defs)

section \<open>The six demonstration scenarios\<close>

lemma demonstration_scenarios:
  "pumpOn (simularCenario (s\<lparr>cenario_atual := 0\<rparr>)) = True"
  "reasonCode (simularCenario (s\<lparr>cenario_atual := 0\<rparr>)) = Some NO_NUTRIENTS_FORCE_IRRIGATION"
  "pumpOn (simularCenario (s\<lparr>cenario_atual := 1\<rparr>)) = True"
  "reasonCode (simularCenario (s\<lparr>cenario_atual := 1\<rparr>)) = Some PARTIAL_NUTRIENT_BALANCING"
  "pumpOn (simularCenario (s\<lparr>cenario_atual := 2\<rparr>)) = True"
  "reasonCode (simularCenario (s\<lparr>cenario_atual := 2\<rparr>)) = Some PARTIAL_NUTRIENT_BALANCING"
  "pumpOn (simularCenario (s\<lparr>cenario_atual := 3\<rparr>)) = False"
  "reasonCode (simularCenario (s\<lparr>cenario_atual := 3\<rparr>)) = Some PH_TOO_ACIDIC"
  "pumpOn (simularCenario (s\<lparr>cenario_atual := 4\<rparr>)) = False"
  "reasonCode (simularCenario (s\<lparr>cenario_atual := 4\<rparr>)) = Some PH_TOO_ALKALINE"
  "pumpOn (simularCenario (s\<lparr>cenario_atual := 5\<rparr>)) = False"
  "reasonCode (simularCenario (s\<lparr>cenario_atual := 5\<rparr>)) = Some MOISTURE_NORMAL"
  by (simp_all add: simularCenario_def decisao_defs fgt_def)

end
